theory Spec2Isabelle
  imports Main "HOL-Library.Word"
begin

section \<open>Data model\<close>

text \<open>
  The upload handlers of tubely: \<open>handlerUploadThumbnail\<close> (src/unnamed/part_000) and
  the two revisions of \<open>handlerUploadVideo\<close> (src/handler_upload_video.go and
  src/unnamed/part_001, the one that remuxes for fast start). A handler is a function from
  the request and the state of the world to the state of the world after it; everything it
  does to the outside (responses, files, processes, the object store, the record store) is
  appended to a trace, in program order.
\<close>

type_synonym uuid = "128 word"

definition uuid_Nil :: uuid where
  "uuid_Nil = 0"

text \<open>
  Modelled from the spec: the type declaration \<open>database.Video\<close> is not under src/.
  The spec's VideoRecord has an identifier, an owning user identifier, an optional
  thumbnail URL, an optional video URL, "plus unspecified descriptive fields", which are
  one opaque field here.
\<close>

record Video =
  ID :: uuid
  ThumbnailURL :: "string option"
  VideoURL :: "string option"
  UserID :: uuid
  Descriptive :: string

text \<open>Go's zero value \<open>Video{}\<close>, which \<open>GetVideo\<close> returns beside an error.\<close>

definition zeroVideo :: Video where
  "zeroVideo = \<lparr>ID = uuid_Nil, ThumbnailURL = None, VideoURL = None, UserID = uuid_Nil,
     Descriptive = []\<rparr>"

text \<open>The local type \<open>videoData\<close> of \<open>getVideoAspectRatio\<close>.\<close>

record stream =
  Width :: int
  Height :: int
  DisplayAspectRatio :: string

record videoData =
  Streams :: "stream list"

record PutObjectInput =
  Bucket :: string
  Key :: string
  ContentType :: string
  ContentLength :: "nat option"
  Body :: "string option"

text \<open>
  What a handler does to the outside. \<open>Body\<close> of a \<open>PutObjectInput\<close> is the path of the
  open file handed to the object store, \<open>None\<close> for a nil \<open>*os.File\<close>.
\<close>

datatype event =
    RespondError nat string
  | RespondJSON nat Video
  | FormTempFile nat
  | FormMemory nat
  | ReadAll nat
  | CreateTemp string
  | CreateFile string
  | CopyToFile string nat
  | Exec string "string list"
  | OpenFile string
  | PutObject PutObjectInput bool
  | DBGetVideo uuid
  | DBUpdateVideo Video bool
  | Remove string

record world =
  db :: "uuid \<Rightarrow> Video option"
  trace :: "event list"
  panicked :: bool

definition emit :: "event \<Rightarrow> world \<Rightarrow> world" where
  "emit e w = w\<lparr>trace := trace w @ [e]\<rparr>"

text \<open>A run-time panic: the handler stops; net/http recovers it and drops the connection.\<close>

definition panic :: "world \<Rightarrow> world" where
  "panic w = w\<lparr>panicked := True\<rparr>"

text \<open>
  The collaborators outside the repository's handlers, as the handler sees them: each field
  is the outcome of one library or process call. \<open>cmd_Run name args\<close> is
  \<open>exec.Command(name, args...).Run()\<close> with stdout captured: \<open>None\<close> when Run returns an
  error (the tool could not start or exited non-zero), otherwise the bytes on stdout.
  \<open>json_Unmarshal\<close> is \<open>json.Unmarshal\<close> into \<open>videoData\<close>: \<open>None\<close> when it returns an
  error; a stream without \<open>display_aspect_ratio\<close> unmarshals to the empty string.
  \<open>mime_params rest\<close> is the outcome of the parameter loop of \<open>mime.ParseMediaType\<close> on
  the text from the first semicolon on. \<open>rand_Read n\<close> is the buffer of \<open>n\<close> bytes after
  \<open>rand.Read\<close>. The \<open>_err\<close> fields say whether the call returns an error.
\<close>

datatype params_result = ParamsOk | InvalidMediaParameter | DuplicateParameter

record env =
  uuid_Parse :: "string \<Rightarrow> uuid option"
  GetBearerToken :: "(string \<times> string) list \<Rightarrow> string option"
  ValidateJWT :: "string \<Rightarrow> string \<Rightarrow> uuid option"
  ReadAll_err :: bool
  Create_err :: "string \<Rightarrow> bool"
  Copy_err :: bool
  os_CreateTemp :: "string option"
  cmd_Run :: "string \<Rightarrow> string list \<Rightarrow> string option"
  json_Unmarshal :: "string \<Rightarrow> videoData option"
  Open_err :: "string \<Rightarrow> bool"
  rand_Read :: "nat \<Rightarrow> 8 word list"
  PutObject_err :: "PutObjectInput \<Rightarrow> bool"
  UpdateVideo_err :: "Video \<Rightarrow> bool"
  mime_params :: "string \<Rightarrow> params_result"

section \<open>getVideoAspectRatio\<close>

datatype error = ExitError | UnmarshalError | MimeError | ErrInvalidMediaParameter

text \<open>
  A Go call either returns its results or panics. \<open>getVideoAspectRatio\<close> returns the pair
  \<open>(string, error)\<close>; the error is \<open>None\<close> for Go's nil.
\<close>

datatype 'a outcome = Returns 'a | Panics

text \<open>
  src/handler_upload_video.go:21-50 and src/unnamed/part_001:146-175 (the same text).
  \<open>data.Streams[0]\<close> is an index expression on a slice: out of range, Go panics.
\<close>

definition getVideoAspectRatio ::
  "env \<Rightarrow> string \<Rightarrow> world \<Rightarrow> (string \<times> error option) outcome \<times> world" where
  "getVideoAspectRatio e filePath w =
     (let args = [''-v'', ''error'', ''-print_format'', ''json'', ''-show_streams'', filePath];
          w1 = emit (Exec ''ffprobe'' args) w
      in case cmd_Run e ''ffprobe'' args of
           None \<Rightarrow> (Returns ([], Some ExitError), w1)
         | Some buffer \<Rightarrow>
             (case json_Unmarshal e buffer of
                None \<Rightarrow> (Returns ([], Some UnmarshalError), w1)
              | Some data \<Rightarrow>
                  if 0 < length (Streams data) then
                    (let ratio = DisplayAspectRatio (Streams data ! 0)
                     in if ratio = ''16:9'' then (Returns (''landscape'', None), w1)
                        else if ratio = ''9:16'' then (Returns (''portrait'', None), w1)
                        else (Returns (''other'', None), w1))
                  else (Panics, w1)))"

definition ffprobe_args :: "string \<Rightarrow> string list" where
  "ffprobe_args filePath =
     [''-v'', ''error'', ''-print_format'', ''json'', ''-show_streams'', filePath]"

text \<open>A concrete environment for evaluating the definitions: every collaborator succeeds.\<close>

definition probe_env :: "string \<Rightarrow> videoData option \<Rightarrow> env" where
  "probe_env out d =
     \<lparr>uuid_Parse = (\<lambda>s. None), GetBearerToken = (\<lambda>h. None), ValidateJWT = (\<lambda>t s. None),
      ReadAll_err = False, Create_err = (\<lambda>p. False), Copy_err = False,
      os_CreateTemp = None, cmd_Run = (\<lambda>n a. Some out), json_Unmarshal = (\<lambda>b. d),
      Open_err = (\<lambda>p. False), rand_Read = (\<lambda>n. replicate n 0),
      PutObject_err = (\<lambda>p. False), UpdateVideo_err = (\<lambda>v. False),
      mime_params = (\<lambda>s. ParamsOk)\<rparr>"

definition world0 :: world where
  "world0 = \<lparr>db = (\<lambda>i. None), trace = [], panicked = False\<rparr>"

section \<open>Library functions the handlers call\<close>

subsection \<open>strings, fmt\<close>

text \<open>
  Strings are byte strings. \<open>strings.ToLower\<close> and \<open>strings.TrimSpace\<close> are modelled on
  ASCII: letters A-Z are lowered, the six ASCII white-space bytes are trimmed, every other
  byte is left as it is.
\<close>

definition toLower_char :: "char \<Rightarrow> char" where
  "toLower_char c =
     (case map_of (zip ''ABCDEFGHIJKLMNOPQRSTUVWXYZ'' ''abcdefghijklmnopqrstuvwxyz'') c of
        None \<Rightarrow> c
      | Some l \<Rightarrow> l)"

definition strings_ToLower :: "string \<Rightarrow> string" where
  "strings_ToLower s = map toLower_char s"

definition isSpace :: "char \<Rightarrow> bool" where
  "isSpace c = (let n = (of_char c :: nat) in (9 \<le> n \<and> n \<le> 13) \<or> n = 32)"

definition strings_TrimSpace :: "string \<Rightarrow> string" where
  "strings_TrimSpace s = rev (dropWhile isSpace (rev (dropWhile isSpace s)))"

text \<open>\<open>strings.Split(s, sep)\<close> for a separator of one byte.\<close>

fun strings_Split :: "string \<Rightarrow> char \<Rightarrow> string list" where
  "strings_Split [] sep = [[]]"
| "strings_Split (c # cs) sep =
     (if c = sep then [] # strings_Split cs sep
      else (case strings_Split cs sep of
              [] \<Rightarrow> [[c]]
            | x # xs \<Rightarrow> (c # x) # xs))"

text \<open>An index expression \<open>xs[i]\<close> on a slice: \<open>None\<close> stands for the run-time panic.\<close>

definition index :: "'a list \<Rightarrow> nat \<Rightarrow> 'a option" where
  "index xs i = (if i < length xs then Some (xs ! i) else None)"

text \<open>The verb \<open>%x\<close> on a byte slice: two lower-case hexadecimal digits a byte.\<close>

definition hexdigit :: "nat \<Rightarrow> char" where
  "hexdigit n = ''0123456789abcdef'' ! (n mod 16)"

definition hex_byte :: "8 word \<Rightarrow> string" where
  "hex_byte b = [hexdigit (unat b div 16), hexdigit (unat b mod 16)]"

definition hex_bytes :: "8 word list \<Rightarrow> string" where
  "hex_bytes bs = concat (map hex_byte bs)"

text \<open>
  \<open>uuid.UUID\<close> is \<open>[16]byte\<close>; the verb \<open>%v\<close> prints it with its \<open>String\<close> method, the
  form 8-4-4-4-12 in lower-case hexadecimal.
\<close>

definition uuid_bytes :: "uuid \<Rightarrow> 8 word list" where
  "uuid_bytes u = map (\<lambda>i. ucast (drop_bit (8 * (15 - i)) u)) [0 ..< 16]"

definition uuid_String :: "uuid \<Rightarrow> string" where
  "uuid_String u =
     (let h = hex_bytes (uuid_bytes u)
      in take 8 h @ ''-'' @ take 4 (drop 8 h) @ ''-'' @ take 4 (drop 12 h) @ ''-''
           @ take 4 (drop 16 h) @ ''-'' @ drop 20 h)"

text \<open>\<open>filepath.Join\<close> of a directory and a file name with no separator in it.\<close>

definition filepath_Join :: "string \<Rightarrow> string \<Rightarrow> string" where
  "filepath_Join dir name = dir @ ''/'' @ name"

subsection \<open>mime.ParseMediaType\<close>

text \<open>
  The media type is the text before the first semicolon, lower-cased and trimmed; it is
  returned empty when it is not \<open>token\<close> or \<open>token/token\<close>, or when the parameter loop finds
  a duplicate parameter name. A parameter that does not parse leaves the media type in
  place beside \<open>ErrInvalidMediaParameter\<close>. With no text after the media type the loop does
  not run.
\<close>

text \<open>
  The tspecials of RFC 1521 and RFC 1867 by their byte values: the two parentheses, the
  two angle brackets, at sign, comma, semicolon, colon, backslash, double quote, slash,
  the two square brackets, question mark and equals sign.
\<close>

definition isTSpecial :: "char \<Rightarrow> bool" where
  "isTSpecial c =
     ((of_char c :: nat) \<in> set [40, 41, 60, 62, 64, 44, 59, 58, 92, 34, 47, 91, 93, 63, 61])"

definition isTokenChar :: "char \<Rightarrow> bool" where
  "isTokenChar c = (let n = (of_char c :: nat) in 32 < n \<and> n < 127 \<and> \<not> isTSpecial c)"

definition consumeToken :: "string \<Rightarrow> string \<times> string" where
  "consumeToken v = (takeWhile isTokenChar v, dropWhile isTokenChar v)"

definition checkMediaTypeDisposition :: "string \<Rightarrow> bool" where
  "checkMediaTypeDisposition s =
     (let (typ, rest) = consumeToken s
      in if typ = [] then False
         else if rest = [] then True
         else if hd rest \<noteq> CHR ''/'' then False
         else (let (subtype, rest') = consumeToken (tl rest)
               in if subtype = [] then False
                  else if rest' \<noteq> [] then False
                  else True))"

definition ParseMediaType :: "env \<Rightarrow> string \<Rightarrow> string \<times> error option" where
  "ParseMediaType e v =
     (let base = takeWhile (\<lambda>c. c \<noteq> CHR '';'') v;
          mediatype = strings_TrimSpace (strings_ToLower base)
      in if \<not> checkMediaTypeDisposition mediatype then ([], Some MimeError)
         else (let v' = drop (length base) v
               in if v' = [] then (mediatype, None)
                  else (case mime_params e v' of
                          ParamsOk \<Rightarrow> (mediatype, None)
                        | InvalidMediaParameter \<Rightarrow> (mediatype, Some ErrInvalidMediaParameter)
                        | DuplicateParameter \<Rightarrow> ([], Some MimeError))))"

subsection \<open>net/http: the request and its multipart form\<close>

text \<open>
  A request body is either not a multipart form or a list of parts: a value part (field
  name, number of bytes) or a file part (field name, file header). Contents are kept by
  their size. \<open>fh_ContentType\<close> is \<open>header.Header.Get("Content-Type")\<close> of the part.
\<close>

record FileHeader =
  fh_Filename :: string
  fh_ContentType :: string
  fh_Size :: nat

datatype part = ValuePart string nat | FilePart string FileHeader

datatype body = NotMultipart | Multipart "part list"

text \<open>
  \<open>r.Body\<close>: the content and the limit on the bytes that may be read from it, \<open>None\<close> when
  the reader has no limit.
\<close>

record Reader =
  content :: body
  limit :: "nat option"

record Request =
  req_PathValue :: string
  req_Header :: "(string \<times> string) list"
  req_Body :: Reader

text \<open>
  \<open>http.MaxBytesReader(w, r, n)\<close> returns a reader like \<open>r\<close> that fails once more than \<open>n\<close>
  bytes are read. It does not change \<open>r\<close>.
\<close>

definition MaxBytesReader :: "Reader \<Rightarrow> nat \<Rightarrow> Reader" where
  "MaxBytesReader rd n =
     rd\<lparr>limit := Some (case limit rd of None \<Rightarrow> n | Some l \<Rightarrow> min l n)\<rparr>"

fun part_size :: "part \<Rightarrow> nat" where
  "part_size (ValuePart name n) = n"
| "part_size (FilePart name fh) = fh_Size fh"

definition body_size :: "part list \<Rightarrow> nat" where
  "body_size ps = sum_list (map part_size ps)"

text \<open>
  \<open>multipart.Reader.ReadForm(maxMemory)\<close>, as documented: file parts are kept in memory up
  to \<open>maxMemory\<close> bytes in total, a file part that does not fit is written in full to a
  temporary file; value parts have \<open>maxMemory\<close> plus 10 MB, and the form is refused with
  \<open>ErrMessageTooLarge\<close> when they do not fit. Parts with no field name are skipped. The
  arguments are the bytes left for files in memory and the bytes left in memory. The result
  is the \<open>File\<close> map of the form, as an association list in the order of the parts.
\<close>

fun readForm ::
  "int \<Rightarrow> int \<Rightarrow> part list \<Rightarrow> world \<Rightarrow> (string \<times> FileHeader) list option \<times> world" where
  "readForm fm mm [] w = (Some [], w)"
| "readForm fm mm (ValuePart name n # ps) w =
     (if name = [] then readForm fm mm ps w
      else if mm < int n then (None, w)
      else readForm fm (mm - int n) ps w)"
| "readForm fm mm (FilePart name fh # ps) w =
     (if name = [] then readForm fm mm ps w
      else if fm < int (fh_Size fh) then
        (case readForm fm mm ps (emit (FormTempFile (fh_Size fh)) w) of
           (None, w') \<Rightarrow> (None, w')
         | (Some fs, w') \<Rightarrow> (Some ((name, fh) # fs), w'))
      else
        (case readForm (fm - int (fh_Size fh)) (mm - int (fh_Size fh)) ps
                (emit (FormMemory (fh_Size fh)) w) of
           (None, w') \<Rightarrow> (None, w')
         | (Some fs, w') \<Rightarrow> (Some ((name, fh) # fs), w')))"

text \<open>
  \<open>r.ParseMultipartForm(maxMemory)\<close>: an error when the body is not a multipart form, when
  the body's reader has a limit and the body is larger, or when ReadForm refuses it.
\<close>

definition ParseMultipartForm ::
  "nat \<Rightarrow> Request \<Rightarrow> world \<Rightarrow> (string \<times> FileHeader) list option \<times> world" where
  "ParseMultipartForm maxMemory r w =
     (case content (req_Body r) of
        NotMultipart \<Rightarrow> (None, w)
      | Multipart ps \<Rightarrow>
          (case limit (req_Body r) of
             None \<Rightarrow> readForm (int maxMemory) (int maxMemory + 10485760) ps w
           | Some l \<Rightarrow>
               if l < body_size ps then (None, w)
               else readForm (int maxMemory) (int maxMemory + 10485760) ps w))"

definition defaultMaxMemory :: nat where
  "defaultMaxMemory = 33554432"

text \<open>
  \<open>r.FormFile(key)\<close>: parses the form with \<open>defaultMaxMemory\<close> when \<open>r.MultipartForm\<close> is
  still nil (the first argument), and returns the header of the first file under \<open>key\<close>;
  \<open>None\<close> stands for the error (\<open>ErrMissingFile\<close> or the parse error), beside which the file
  and the header are nil.
\<close>

definition FormFile ::
  "(string \<times> FileHeader) list option \<Rightarrow> Request \<Rightarrow> string \<Rightarrow> world \<Rightarrow>
     FileHeader option \<times> world" where
  "FormFile multipartForm r key w =
     (case multipartForm of
        Some form \<Rightarrow> (map_of form key, w)
      | None \<Rightarrow>
          (case ParseMultipartForm defaultMaxMemory r w of
             (None, w') \<Rightarrow> (None, w')
           | (Some form, w') \<Rightarrow> (map_of form key, w')))"

section \<open>The repository's collaborators\<close>

record apiConfig =
  jwtSecret :: string
  assetsRoot :: string
  s3Bucket :: string
  s3Region :: string

text \<open>
  Modelled from the spec: \<open>respondWithError\<close> and \<open>respondWithJSON\<close> are not under src/.
  "Failure: JSON error body with status codes", "success: JSON-serialized VideoRecord with
  HTTP 200". Each call writes a response; the client's status is that of the first.
\<close>

definition respondWithError :: "nat \<Rightarrow> string \<Rightarrow> world \<Rightarrow> world" where
  "respondWithError code msg w = emit (RespondError code msg) w"

definition respondWithJSON :: "nat \<Rightarrow> Video \<Rightarrow> world \<Rightarrow> world" where
  "respondWithJSON code v w = emit (RespondJSON code v) w"

text \<open>
  Modelled from the spec: the record store \<open>cfg.db\<close> is not under src/. "fetch(id) ->
  VideoRecord | NotFound" and "commit(record) -> Ok | StoreFailure"; \<open>GetVideo\<close> has Go's
  result \<open>(Video, error)\<close>, the zero record beside an error. A commit that fails leaves the
  store as it was.
\<close>

definition GetVideo :: "uuid \<Rightarrow> world \<Rightarrow> Video \<times> bool \<times> world" where
  "GetVideo videoID w =
     (case db w videoID of
        None \<Rightarrow> (zeroVideo, True, emit (DBGetVideo videoID) w)
      | Some v \<Rightarrow> (v, False, emit (DBGetVideo videoID) w))"

definition UpdateVideo :: "env \<Rightarrow> Video \<Rightarrow> world \<Rightarrow> bool \<times> world" where
  "UpdateVideo e v w =
     (if UpdateVideo_err e v then (True, emit (DBUpdateVideo v False) w)
      else (False, emit (DBUpdateVideo v True) (w\<lparr>db := (db w)(ID v \<mapsto> v)\<rparr>)))"

text \<open>A deferred \<open>os.Remove(name)\<close> runs when the handler leaves, also by a panic.\<close>

definition os_Remove :: "string \<Rightarrow> world \<Rightarrow> world" where
  "os_Remove name w = emit (Remove name) w"

text \<open>The statement \<open>if cond { stmt }\<close> with no return in its block.\<close>

definition if_do :: "bool \<Rightarrow> (world \<Rightarrow> world) \<Rightarrow> world \<Rightarrow> world" where
  "if_do cond stmt w = (if cond then stmt w else w)"

definition start :: "(uuid \<Rightarrow> Video option) \<Rightarrow> world" where
  "start store = \<lparr>db = store, trace = [], panicked = False\<rparr>"

section \<open>handlerUploadThumbnail\<close>

text \<open>src/unnamed/part_000:17-91.\<close>

definition maxMemory :: nat where
  "maxMemory = 10485760"

definition handlerUploadThumbnail ::
  "apiConfig \<Rightarrow> env \<Rightarrow> Request \<Rightarrow> (uuid \<Rightarrow> Video option) \<Rightarrow> world" where
  "handlerUploadThumbnail cfg e r store =
     (let w = start store in
      case uuid_Parse e (req_PathValue r) of
        None \<Rightarrow> respondWithError 400 ''Invalid ID'' w
      | Some videoID \<Rightarrow>
      (case GetBearerToken e (req_Header r) of
        None \<Rightarrow> respondWithError 401 ''Couldn't find JWT'' w
      | Some token \<Rightarrow>
      (case ValidateJWT e token (jwtSecret cfg) of
        None \<Rightarrow> respondWithError 401 ''Couldn't validate JWT'' w
      | Some userID \<Rightarrow>
      (case ParseMultipartForm maxMemory r w of
        (None, w1) \<Rightarrow> respondWithError 400 ''Couldn't parse form data'' w1
      | (Some form, w1) \<Rightarrow>
      (case FormFile (Some form) r ''thumbnail'' w1 of
        (None, w2) \<Rightarrow> respondWithError 500 ''Couldn't get file'' w2
      | (Some header, w2) \<Rightarrow>
      (let mediaType = fst (ParseMediaType e (fh_ContentType header)) in
       if mediaType \<noteq> ''image/jpeg'' \<and> mediaType \<noteq> ''image/png'' then
         respondWithError 415 ''Unsupported media type'' w2
       else if ReadAll_err e then respondWithError 500 ''Couldn't read file'' w2
       else
      (let w3 = emit (ReadAll (fh_Size header)) w2 in
       case GetVideo videoID w3 of (video, err, w4) \<Rightarrow>
       if err then respondWithError 500 ''Couldn't get video'' w4
       else if UserID video \<noteq> userID then
         respondWithError 401 ''You are not authorized to upload this video'' w4
       else
      (case index (strings_Split mediaType CHR ''/'') 1 of
        None \<Rightarrow> panic w4
      | Some ext \<Rightarrow>
      (let filename = uuid_String videoID @ ''.'' @ ext;
           path = filepath_Join (assetsRoot cfg) filename in
       if Create_err e path then respondWithError 500 ''Couldn't create file'' w4
       else
      (let w5 = emit (CreateFile path) w4 in
       if Copy_err e then respondWithError 500 ''Couldn't write file'' w5
       else
      (let w6 = emit (CopyToFile path (fh_Size header)) w5;
           url = ''http://localhost:8091/assets/'' @ uuid_String videoID @ ''.'' @ ext;
           video' = video\<lparr>ThumbnailURL := Some url\<rparr> in
       case UpdateVideo e video' w6 of (err, w7) \<Rightarrow>
       if err then respondWithError 500 ''Couldn't update video'' w7
       else respondWithJSON 200 video' w7)))))))))))"

section \<open>handlerUploadVideo\<close>

text \<open>src/unnamed/part_001:134-142.\<close>

definition processVideoForFastStart ::
  "env \<Rightarrow> string \<Rightarrow> world \<Rightarrow> (string \<times> error option) \<times> world" where
  "processVideoForFastStart e filepath w =
     (let outputFilepath = filepath @ ''.processing'';
          args = [''-i'', filepath, ''-c'', ''copy'', ''-movflags'', ''faststart'', ''-f'',
                  ''mp4'', outputFilepath];
          w1 = emit (Exec ''ffmpeg'' args) w
      in case cmd_Run e ''ffmpeg'' args of
           None \<Rightarrow> (([], Some ExitError), w1)
         | Some out \<Rightarrow> ((outputFilepath, None), w1))"

definition uploadLimit :: nat where
  "uploadLimit = 1073741824"

text \<open>
  src/handler_upload_video.go:52-135. The result of \<open>http.MaxBytesReader\<close> is not
  assigned. The branches for a failed \<open>GetVideo\<close>, for an owner other than the user and
  for a failed \<open>os.CreateTemp\<close> respond and do not return. \<open>defer file.Close()\<close> stands
  before the error check of \<open>FormFile\<close>: beside an error \<open>file\<close> is a nil interface and the
  defer statement panics. After a failed \<open>os.CreateTemp\<close>, \<open>tmpFile\<close> is a nil
  \<open>*os.File\<close> and \<open>tmpFile.Name()\<close> panics. The error of \<open>getVideoAspectRatio\<close> is
  overwritten unread.
\<close>

definition handlerUploadVideo ::
  "apiConfig \<Rightarrow> env \<Rightarrow> Request \<Rightarrow> (uuid \<Rightarrow> Video option) \<Rightarrow> world" where
  "handlerUploadVideo cfg e r store =
     (let w = start store;
          unused = MaxBytesReader (req_Body r) uploadLimit in
      case uuid_Parse e (req_PathValue r) of
        None \<Rightarrow> respondWithError 400 ''Invalid ID'' w
      | Some videoID \<Rightarrow>
      (case GetBearerToken e (req_Header r) of
        None \<Rightarrow> respondWithError 401 ''Couldn't find JWT'' w
      | Some token \<Rightarrow>
      (case ValidateJWT e token (jwtSecret cfg) of
        None \<Rightarrow> respondWithError 401 ''Couldn't validate JWT'' w
      | Some userID \<Rightarrow>
      (case GetVideo videoID w of (video, err, w1) \<Rightarrow>
      (let w2 = if_do err (respondWithError 500 ''Couldn't find video'') w1;
           w3 = if_do (UserID video \<noteq> userID)
                  (respondWithError 401 ''You are not authorized to upload this video'') w2 in
       case FormFile None r ''video'' w3 of
        (None, w4) \<Rightarrow> panic w4
      | (Some header, w4) \<Rightarrow>
      (let mediaType = fst (ParseMediaType e (fh_ContentType header)) in
       if mediaType \<noteq> ''video/mp4'' then
         respondWithError 415 ''Unsupported media type'' w4
       else
      (case os_CreateTemp e of
        None \<Rightarrow> panic (respondWithError 500 ''Couldn't create temp file'' w4)
      | Some tmpFile \<Rightarrow>
       os_Remove tmpFile
      (let w5 = emit (CreateTemp tmpFile) w4 in
       if Copy_err e then respondWithError 500 ''Couldn't copy file'' w5
       else
      (let n = fh_Size header;
           w6 = emit (CopyToFile tmpFile n) w5 in
       case getVideoAspectRatio e tmpFile w6 of
        (Panics, w7) \<Rightarrow> panic w7
      | (Returns (aspectRatio, err), w7) \<Rightarrow>
      (let key = rand_Read e 32;
           filename = aspectRatio @ ''/'' @ hex_bytes key @ ''.mp4'';
           params = \<lparr>Bucket = s3Bucket cfg, Key = filename, ContentType = mediaType,
                     ContentLength = Some n, Body = Some tmpFile\<rparr> in
       if PutObject_err e params then
         respondWithError 500 ''Couldn't upload video'' (emit (PutObject params False) w7)
       else
      (let w8 = emit (PutObject params True) w7;
           videoUrl = ''https://'' @ s3Bucket cfg @ ''.s3.'' @ s3Region cfg
                        @ ''.amazonaws.com/'' @ filename;
           video' = video\<lparr>VideoURL := Some videoUrl\<rparr> in
       case UpdateVideo e video' w8 of (err, w9) \<Rightarrow>
       if err then respondWithError 500 ''Couldn't save video to database'' w9
       else respondWithJSON 200 video' w9)))))))))))"

text \<open>
  src/unnamed/part_001:24-128, the revision that remuxes for fast start. \<open>FormFile\<close> is
  checked before the defer. The branches for a failed \<open>GetVideo\<close>, an owner other than the
  user, a failed \<open>os.CreateTemp\<close>, a failed \<open>getVideoAspectRatio\<close>, a failed
  \<open>processVideoForFastStart\<close> and a failed \<open>os.Open\<close> respond and do not return. After a
  failed \<open>os.Open\<close>, \<open>body\<close> is a nil \<open>*os.File\<close>, which is what \<open>PutObject\<close> is given.
\<close>

definition handlerUploadVideo_faststart ::
  "apiConfig \<Rightarrow> env \<Rightarrow> Request \<Rightarrow> (uuid \<Rightarrow> Video option) \<Rightarrow> world" where
  "handlerUploadVideo_faststart cfg e r store =
     (let w = start store;
          unused = MaxBytesReader (req_Body r) uploadLimit in
      case uuid_Parse e (req_PathValue r) of
        None \<Rightarrow> respondWithError 400 ''Invalid video ID'' w
      | Some videoID \<Rightarrow>
      (case (case GetBearerToken e (req_Header r) of
               None \<Rightarrow> None
             | Some token \<Rightarrow> ValidateJWT e token (jwtSecret cfg)) of
        None \<Rightarrow> respondWithError 401 ''Invalid user ID'' w
      | Some userID \<Rightarrow>
      (case GetVideo videoID w of (video, err, w1) \<Rightarrow>
      (let w2 = if_do err (respondWithError 500 ''Couldn't find video'') w1;
           w3 = if_do (UserID video \<noteq> userID)
                  (respondWithError 401 ''You are not authorized to upload this video'') w2 in
       case FormFile None r ''video'' w3 of
        (None, w4) \<Rightarrow> respondWithError 500 ''Couldn't get file'' w4
      | (Some header, w4) \<Rightarrow>
      (let mediaType = fst (ParseMediaType e (fh_ContentType header)) in
       if mediaType \<noteq> ''video/mp4'' then
         respondWithError 415 ''Unsupported media type'' w4
       else
      (case os_CreateTemp e of
        None \<Rightarrow> panic (respondWithError 500 ''Couldn't create temp file'' w4)
      | Some tmpFile \<Rightarrow>
       os_Remove tmpFile
      (let w5 = emit (CreateTemp tmpFile) w4 in
       if Copy_err e then respondWithError 500 ''Couldn't copy file'' w5
       else
      (let w6 = emit (CopyToFile tmpFile (fh_Size header)) w5 in
       case getVideoAspectRatio e tmpFile w6 of
        (Panics, w7) \<Rightarrow> panic w7
      | (Returns (aspectRatio, err), w7) \<Rightarrow>
      (let w8 = if_do (err \<noteq> None)
                  (respondWithError 500 ''Couldn't get aspect ratio'') w7 in
       case processVideoForFastStart e tmpFile w8 of ((processedFilename, err), w9) \<Rightarrow>
      (let w10 = if_do (err \<noteq> None) (respondWithError 500 ''Couldn't process video'') w9;
           body = (if Open_err e processedFilename then None else Some processedFilename);
           w11 = (if Open_err e processedFilename
                  then respondWithError 500 ''Couldn't open fast start processed file''
                  else emit (OpenFile processedFilename)) w10 in
       os_Remove processedFilename
      (let key = rand_Read e 32;
           filename = aspectRatio @ ''/'' @ hex_bytes key @ ''.mp4'';
           params = \<lparr>Bucket = s3Bucket cfg, Key = filename, ContentType = mediaType,
                     ContentLength = None, Body = body\<rparr> in
       if PutObject_err e params then
         respondWithError 500 ''Couldn't upload video'' (emit (PutObject params False) w11)
       else
      (let w12 = emit (PutObject params True) w11;
           videoUrl = ''https://'' @ s3Bucket cfg @ ''.s3.'' @ s3Region cfg
                        @ ''.amazonaws.com/'' @ filename;
           video' = video\<lparr>VideoURL := Some videoUrl\<rparr> in
       case UpdateVideo e video' w12 of (err, w13) \<Rightarrow>
       if err then respondWithError 500 ''Couldn't save video to database'' w13
       else respondWithJSON 200 video' w13))))))))))))"

section \<open>Reading a trace\<close>

text \<open>The status the client receives: that of the first response written.\<close>

fun status :: "event list \<Rightarrow> nat option" where
  "status [] = None"
| "status (RespondError code msg # es) = Some code"
| "status (RespondJSON code v # es) = Some code"
| "status (ev # es) = status es"

section \<open>Aspect-ratio classification\<close>

text \<open>
  C4. When the probe succeeds and its output unmarshals, getVideoAspectRatio returns
  "landscape" if the first stream's display_aspect_ratio is "16:9", "portrait" if it is
  "9:16", and "other" for every other value of it (the empty string of an absent field
  included), each with a nil error. The first stream is the head of a non-empty stream
  list.
\<close>

theorem getVideoAspectRatio_classifies:
  assumes "cmd_Run e ''ffprobe'' (ffprobe_args p) = Some out"
    and "json_Unmarshal e out = Some d"
    and "Streams d = s # ss"
  shows "fst (getVideoAspectRatio e p w) =
           Returns (if DisplayAspectRatio s = ''16:9'' then ''landscape''
                    else if DisplayAspectRatio s = ''9:16'' then ''portrait''
                    else ''other'', None)"
  using assms by (simp add: getVideoAspectRatio_def ffprobe_args_def Let_def)

theorem getVideoAspectRatio_classifies_witness:
  "fst (getVideoAspectRatio
          (probe_env ''{}'' (Some \<lparr>Streams = [\<lparr>Width = 1920, Height = 1080,
             DisplayAspectRatio = ''16:9''\<rparr>]\<rparr>)) ''/tmp/v.mp4'' world0)
     = Returns (''landscape'', None)
   \<and> fst (getVideoAspectRatio
          (probe_env ''{}'' (Some \<lparr>Streams = [\<lparr>Width = 1080, Height = 1920,
             DisplayAspectRatio = ''9:16''\<rparr>]\<rparr>)) ''/tmp/v.mp4'' world0)
     = Returns (''portrait'', None)
   \<and> fst (getVideoAspectRatio
          (probe_env ''{}'' (Some \<lparr>Streams = [\<lparr>Width = 640, Height = 480,
             DisplayAspectRatio = []\<rparr>]\<rparr>)) ''/tmp/v.mp4'' world0)
     = Returns (''other'', None)"
  using getVideoAspectRatio_classifies
          [of "probe_env ''{}'' (Some \<lparr>Streams = [\<lparr>Width = 1920, Height = 1080,
             DisplayAspectRatio = ''16:9''\<rparr>]\<rparr>)" "''/tmp/v.mp4''" "''{}''"
             "\<lparr>Streams = [\<lparr>Width = 1920, Height = 1080, DisplayAspectRatio = ''16:9''\<rparr>]\<rparr>"
             "\<lparr>Width = 1920, Height = 1080, DisplayAspectRatio = ''16:9''\<rparr>" "[]" world0]
        getVideoAspectRatio_classifies
          [of "probe_env ''{}'' (Some \<lparr>Streams = [\<lparr>Width = 1080, Height = 1920,
             DisplayAspectRatio = ''9:16''\<rparr>]\<rparr>)" "''/tmp/v.mp4''" "''{}''"
             "\<lparr>Streams = [\<lparr>Width = 1080, Height = 1920, DisplayAspectRatio = ''9:16''\<rparr>]\<rparr>"
             "\<lparr>Width = 1080, Height = 1920, DisplayAspectRatio = ''9:16''\<rparr>" "[]" world0]
        getVideoAspectRatio_classifies
          [of "probe_env ''{}'' (Some \<lparr>Streams = [\<lparr>Width = 640, Height = 480,
             DisplayAspectRatio = []\<rparr>]\<rparr>)" "''/tmp/v.mp4''" "''{}''"
             "\<lparr>Streams = [\<lparr>Width = 640, Height = 480, DisplayAspectRatio = []\<rparr>]\<rparr>"
             "\<lparr>Width = 640, Height = 480, DisplayAspectRatio = []\<rparr>" "[]" world0]
  by (simp add: probe_env_def)

text \<open>
  C9. The claim says the access to the first stream is in bounds for every unmarshalled
  probe output, an empty streams array included. The code indexes \<open>data.Streams[0]\<close> with
  no length check: on a probe output with no streams (\<open>{"streams": []}\<close>, or \<open>{}\<close>, which
  unmarshals to a nil slice) the function panics and returns neither a classification nor
  an error.
\<close>

theorem getVideoAspectRatio_empty_streams_panics:
  "fst (getVideoAspectRatio (probe_env ''{\"streams\": []}'' (Some \<lparr>Streams = []\<rparr>))
          ''/tmp/tubely-upload.mp4'' world0) = Panics"
  by (simp add: getVideoAspectRatio_def probe_env_def Let_def)

end
